theory Spec2Isabelle
  imports Main
begin

section \<open>The plugin dispatch engine of libstoragemgmt-golang (plugin.go)\<close>

subsection \<open>Errors\<close>

text \<open>
  Modelled from the spec: the error kinds of package \<open>errors\<close>, whose declarations are not
  part of plugin.go. plugin.go names three of them (\<open>errors.LibBug\<close>, \<open>errors.NoSupport\<close>,
  \<open>errors.TransPortComunication\<close>); every other kind of the closed enumeration is a
  \<open>DomainKind\<close> carrying its integer code.
\<close>

datatype ErrorNumber = LibBug | NoSupport | TransPortComunication | DomainKind int

text \<open>The two failures \<open>strconv.ParseInt\<close> reports inside its \<open>*strconv.NumError\<close>.\<close>

datatype num_err = ErrSyntax | ErrRange

text \<open>
  A non-nil value of Go's interface \<open>error\<close>, by dynamic type: \<open>*errors.LsmError\<close> with its
  fields \<open>Code\<close> and \<open>Message\<close>, \<open>*strconv.NumError\<close> with \<open>Func\<close>, \<open>Num\<close> and \<open>Err\<close>, or a
  value of any other type (its text). The type assertion \<open>err.(*errors.LsmError)\<close> of
  \<open>Run\<close> succeeds on the first constructor only. A nil \<open>error\<close> is \<open>None\<close> of
  \<open>go_error option\<close>.
\<close>

datatype go_error =
    LsmError (Code: ErrorNumber) (Message: string)
  | NumError string string num_err
  | OtherError string

subsection \<open>Requests, the world outside the plugin, and the transport\<close>

text \<open>A decoded request: \<open>request.Method\<close> and the raw JSON of \<open>request.Params\<close>.\<close>

record Request =
  Method :: string
  Params :: string

text \<open>
  Everything \<open>Run\<close> does that can be observed from outside, in program order: a return of
  \<open>readRequest\<close> with what it returned, the invocation of a handler of the call table,
  \<open>sendError\<close>, \<open>sendResponse\<close>, \<open>close\<close>, and \<open>fmt.Printf\<close> with its format and argument.
\<close>

datatype event =
    ReadRequest "go_error + Request"
  | Call string string
  | SendError go_error
  | SendResponse string
  | Close
  | Printf string go_error

text \<open>
  The world the plugin runs in: what the client's connection will still deliver to
  \<open>readRequest\<close> (\<open>Inl\<close> a read failure, \<open>Inr\<close> a decoded request), the events so far, and
  the state of the backend behind the callbacks. Once \<open>incoming\<close> is exhausted the client
  is silent and the blocking \<open>readRequest\<close> never returns.
\<close>

record 'b world =
  incoming :: "(go_error + Request) list"
  trace :: "event list"
  backend :: 'b

text \<open>
  Type \<open>transPort\<close> is declared outside plugin.go; \<open>PluginInit\<close> builds it as
  \<open>transPort{uds: s, debug: false}\<close>.
\<close>

record 'c transPort =
  uds :: 'c
  debug :: bool

text \<open>
  Modelled from the spec: the four methods of \<open>transPort\<close> that \<open>Run\<close> calls; their bodies
  are not part of plugin.go. \<open>readRequest\<close> blocks until the connection delivers a request
  or a failure (\<open>None\<close>: it never returns); the two send methods and \<open>close\<close> act on the
  connection, and \<open>Run\<close> ignores what they return.
\<close>

definition readRequest :: "'c transPort \<Rightarrow> 'b world \<Rightarrow> ((go_error + Request) \<times> 'b world) option" where
  "readRequest t w =
     (case incoming w of
        [] \<Rightarrow> None
      | r # rs \<Rightarrow> Some (r, w\<lparr>incoming := rs, trace := trace w @ [ReadRequest r]\<rparr>))"

definition sendError :: "'c transPort \<Rightarrow> go_error \<Rightarrow> 'b world \<Rightarrow> 'b world" where
  "sendError t e w = w\<lparr>trace := trace w @ [SendError e]\<rparr>"

definition sendResponse :: "'c transPort \<Rightarrow> string \<Rightarrow> 'b world \<Rightarrow> 'b world" where
  "sendResponse t r w = w\<lparr>trace := trace w @ [SendResponse r]\<rparr>"

definition close :: "'c transPort \<Rightarrow> 'b world \<Rightarrow> 'b world" where
  "close t w = w\<lparr>trace := trace w @ [Close]\<rparr>"

definition printf :: "string \<Rightarrow> go_error \<Rightarrow> 'b world \<Rightarrow> 'b world" where
  "printf fmt e w = w\<lparr>trace := trace w @ [Printf fmt e]\<rparr>"

subsection \<open>The plugin\<close>

text \<open>
  \<open>type handler func(p *Plugin, params json.RawMessage) (interface{}, error)\<close>. The handlers
  are built by \<open>buildTable\<close>, outside plugin.go, from the callbacks; a handler reaches the
  backend through \<open>p.cb\<close>, so here it takes the backend's state and the parameters and
  returns the pair \<open>(response, err)\<close> and the backend's new state. A handler returns and
  leaves the transport \<open>p.tp\<close> to \<open>Run\<close>: reading and replying are \<open>Run\<close>'s alone.
\<close>

type_synonym 'b handler = "'b \<Rightarrow> string \<Rightarrow> (string \<times> go_error option) \<times> 'b"

text \<open>
  \<open>type Plugin struct\<close>. \<open>callTable\<close> is a Go map whose values may be nil: \<open>None\<close> is a
  missing key, \<open>Some None\<close> a key that holds a nil handler.
\<close>

record ('c, 'k, 'b) Plugin =
  tp :: "'c transPort"
  cb :: 'k
  callTable :: "string \<rightharpoonup> 'b handler option"
  desc :: string
  ver :: string

subsection \<open>PluginInit\<close>

definition is_digit :: "char \<Rightarrow> bool" where
  "is_digit c = (c \<in> set ''0123456789'')"

definition digit_val :: "char \<Rightarrow> nat" where
  "digit_val c = of_char c - of_char (CHR ''0'')"

text \<open>
  The digit loop of \<open>strconv.ParseUint(s, 10, 32)\<close> with accumulator \<open>n\<close>: a byte that is
  not a decimal digit is a syntax error, and a value above \<open>1<<32 - 1\<close> is a range error,
  reported at the digit that exceeds it.
\<close>

fun ParseUint_loop :: "string \<Rightarrow> nat \<Rightarrow> num_err + nat" where
  "ParseUint_loop [] n = Inr n"
| "ParseUint_loop (c # cs) n =
     (if \<not> is_digit c then Inl ErrSyntax
      else if n * 10 + digit_val c > 2 ^ 32 - 1 then Inl ErrRange
      else ParseUint_loop cs (n * 10 + digit_val c))"

definition ParseUint :: "string \<Rightarrow> num_err + nat" where
  "ParseUint s = (if s = [] then Inl ErrSyntax else ParseUint_loop s 0)"

text \<open>
  \<open>strconv.ParseInt(s, 10, 32)\<close> of Go's library: an optional sign, then \<open>ParseUint\<close>, then
  the range of a 32-bit signed integer. Every failure is a \<open>*NumError\<close> naming the
  function and the whole input.
\<close>

definition ParseInt :: "string \<Rightarrow> go_error + int" where
  "ParseInt s =
     (case s of
        [] \<Rightarrow> Inl (NumError ''ParseInt'' s ErrSyntax)
      | c # cs \<Rightarrow>
          (let neg = (c = CHR ''-'');
               s1 = (if c = CHR ''+'' \<or> c = CHR ''-'' then cs else s)
           in case ParseUint s1 of
                Inl ErrSyntax \<Rightarrow> Inl (NumError ''ParseInt'' s ErrSyntax)
              | Inl ErrRange \<Rightarrow> Inl (NumError ''ParseInt'' s ErrRange)
              | Inr un \<Rightarrow>
                  if \<not> neg \<and> un \<ge> 2 ^ 31 then Inl (NumError ''ParseInt'' s ErrRange)
                  else if neg \<and> un > 2 ^ 31 then Inl (NumError ''ParseInt'' s ErrRange)
                  else Inr (if neg then - int un else int un)))"

text \<open>\<open>fmt.Sprintf("%s", xs)\<close> of a \<open>[]string\<close>: the elements between brackets, space separated.\<close>

fun join_spaces :: "string list \<Rightarrow> string" where
  "join_spaces [] = []"
| "join_spaces [x] = x"
| "join_spaces (x # y # ys) = x @ '' '' @ join_spaces (y # ys)"

definition sprint_strings :: "string list \<Rightarrow> string" where
  "sprint_strings xs = ''['' @ join_spaces xs @ '']''"

definition newline :: string where
  "newline = [CHR 0x0A]"

text \<open>
  \<open>PluginInit\<close>. Go's result pair \<open>(*Plugin, error)\<close> is a sum: \<open>Inl err\<close> is \<open>(nil, err)\<close> and
  \<open>Inr p\<close> is \<open>(p, nil)\<close>. Two things it calls are outside plugin.go and are parameters:
  \<open>buildTable\<close>, and \<open>fileConn\<close> for \<open>os.NewFile(uintptr(fd), "client")\<close> followed by
  \<open>net.FileConn\<close>, which fails when the descriptor is not an open socket.
\<close>

definition PluginInit ::
  "('k \<Rightarrow> (string \<rightharpoonup> 'b handler option)) \<Rightarrow> (int \<Rightarrow> go_error + 'c) \<Rightarrow>
   'k \<Rightarrow> string list \<Rightarrow> string \<Rightarrow> string \<Rightarrow> go_error + ('c, 'k, 'b) Plugin" where
  "PluginInit buildTable fileConn callbacks cmdLineArgs dsc vr =
     (if length cmdLineArgs = 2 then
        (case ParseInt (cmdLineArgs ! 1) of
           Inl err \<Rightarrow> Inl err
         | Inr fd \<Rightarrow>
             (case fileConn fd of
                Inl err \<Rightarrow> Inl err
              | Inr s \<Rightarrow>
                  Inr \<lparr>tp = \<lparr>uds = s, debug = False\<rparr>, cb = callbacks,
                       callTable = buildTable callbacks, desc = dsc, ver = vr\<rparr>))
      else Inl (LsmError LibBug
                  (''Plugin called with invalid args: '' @ sprint_strings cmdLineArgs @ newline)))"

subsection \<open>noSupport and Run\<close>

definition noSupport :: "'c transPort \<Rightarrow> string \<Rightarrow> 'b world \<Rightarrow> 'b world" where
  "noSupport t method w =
     sendError t (LsmError NoSupport (''method '' @ method @ '' not supported'')) w"

text \<open>
  How a call of \<open>Run\<close> ends: it returns, or it stays blocked in \<open>readRequest\<close> for ever.
  Each pass of the loop takes one element of \<open>incoming\<close>, so a client that never stops
  sending is seen through the finite prefixes of what it sends.
\<close>

datatype outcome = Returned | Blocked

function Run :: "('c, 'k, 'b) Plugin \<Rightarrow> 'b world \<Rightarrow> outcome \<times> 'b world" where
  "Run p w =
     (case readRequest (tp p) w of
        None \<Rightarrow> (Blocked, w)
      | Some (Inl err, w1) \<Rightarrow>
          (case err of
             LsmError code msg \<Rightarrow>
               if code \<noteq> TransPortComunication then Run p (sendError (tp p) err w1)
               else (Returned, printf (''Communication error: exiting! %s'' @ newline) err w1)
           | _ \<Rightarrow> (Returned, printf (''Unexpected error, exiting! %s'' @ newline) err w1))
      | Some (Inr request, w1) \<Rightarrow>
          (case callTable p (Method request) of
             Some (Some f) \<Rightarrow>
               (case f (backend w1) (Params request) of
                  ((response, err), b) \<Rightarrow>
                    (let w2 = w1\<lparr>trace := trace w1 @ [Call (Method request) (Params request)],
                                 backend := b\<rparr>;
                         w3 = (case err of
                                 Some e \<Rightarrow> sendError (tp p) e w2
                               | None \<Rightarrow> sendResponse (tp p) response w2)
                     in if Method request = ''plugin_unregister''
                        then (Returned, close (tp p) w3)
                        else Run p w3))
           | _ \<Rightarrow> Run p (noSupport (tp p) (Method request) w1)))"
  by pat_completeness auto
termination
  by (relation "measure (\<lambda>(p, w). length (incoming w))")
     (auto simp: readRequest_def sendError_def sendResponse_def noSupport_def
           split: list.splits option.splits)

subsection \<open>Observations on a run\<close>

text \<open>The events of one call of \<open>Run\<close>: what it appends to the trace it starts from.\<close>

definition emitted :: "('c, 'k, 'b) Plugin \<Rightarrow> 'b world \<Rightarrow> event list" where
  "emitted p w = drop (length (trace w)) (trace (snd (Run p w)))"

definition is_send :: "event \<Rightarrow> bool" where
  "is_send e = (case e of SendError _ \<Rightarrow> True | SendResponse _ \<Rightarrow> True | _ \<Rightarrow> False)"

definition is_read :: "event \<Rightarrow> bool" where
  "is_read e = (case e of ReadRequest _ \<Rightarrow> True | _ \<Rightarrow> False)"

definition is_call :: "event \<Rightarrow> bool" where
  "is_call e = (case e of Call _ _ \<Rightarrow> True | _ \<Rightarrow> False)"

text \<open>The kind of a structured error; \<open>None\<close> for an error that is not an \<open>*errors.LsmError\<close>.\<close>

definition lsm_code :: "go_error \<Rightarrow> ErrorNumber option" where
  "lsm_code e = (case e of LsmError c m \<Rightarrow> Some c | _ \<Rightarrow> None)"

text \<open>
  The shape of every run, pass by pass of the loop: the events of a call of \<open>Run\<close> together
  with how the call ends. It is derived from \<open>Run\<close> below (\<open>Run_session\<close>) and carries the
  properties of whole traces.
\<close>

inductive session :: "event list \<Rightarrow> outcome \<Rightarrow> bool" where
  blocked: "session [] Blocked"
| read_fatal: "session [ReadRequest (Inl e), Printf f e] Returned"
| unregister: "is_send s \<Longrightarrow> Method r = ''plugin_unregister'' \<Longrightarrow>
     session [ReadRequest (Inr r), Call (Method r) (Params r), s, Close] Returned"
| read_error: "session t out \<Longrightarrow> session (ReadRequest (Inl e) # SendError e # t) out"
| no_support: "session t out \<Longrightarrow> session (ReadRequest (Inr r) # SendError e # t) out"
| handled: "session t out \<Longrightarrow> is_send s \<Longrightarrow> Method r \<noteq> ''plugin_unregister'' \<Longrightarrow>
     session (ReadRequest (Inr r) # Call (Method r) (Params r) # s # t) out"

text \<open>
  Startup arguments: a non-empty string of decimal digits, and the same after an optional
  sign, which is what \<open>ParseInt\<close> reads.
\<close>

definition numeric :: "string \<Rightarrow> bool" where
  "numeric s = (s \<noteq> [] \<and> list_all is_digit s)"

definition signed_numeric :: "string \<Rightarrow> bool" where
  "signed_numeric s =
     (case s of
        [] \<Rightarrow> False
      | c # cs \<Rightarrow> if c = CHR ''+'' \<or> c = CHR ''-'' then numeric cs else numeric s)"

subsection \<open>A small plugin to run\<close>

text \<open>
  A backend that counts the calls of \<open>pools\<close>, refuses registration and unregistration with
  a domain error, and whose table holds a nil handler for \<open>volumes\<close>.
\<close>

definition demo_table :: "string \<rightharpoonup> nat handler option" where
  "demo_table =
     [''pools'' \<mapsto> Some (\<lambda>b ps. ((''[]'', None), Suc b)),
      ''plugin_register'' \<mapsto>
         Some (\<lambda>b ps. ((''null'', Some (LsmError (DomainKind 101) ''invalid URI'')), b)),
      ''plugin_unregister'' \<mapsto>
         Some (\<lambda>b ps. ((''null'', Some (LsmError (DomainKind 1) ''busy'')), b)),
      ''volumes'' \<mapsto> None]"

definition demo_plugin :: "(nat, unit, nat) Plugin" where
  "demo_plugin = \<lparr>tp = \<lparr>uds = 3, debug = False\<rparr>, cb = (), callTable = demo_table,
     desc = ''demo'', ver = ''1.0''\<rparr>"

text \<open>The same plugin with a nil handler in the slot of \<open>plugin_unregister\<close>.\<close>

definition nil_unregister_plugin :: "(nat, unit, nat) Plugin" where
  "nil_unregister_plugin = demo_plugin\<lparr>callTable := demo_table(''plugin_unregister'' \<mapsto> None)\<rparr>"

definition demo_buildTable :: "unit \<Rightarrow> (string \<rightharpoonup> nat handler option)" where
  "demo_buildTable k = demo_table"

definition demo_fileConn :: "int \<Rightarrow> go_error + nat" where
  "demo_fileConn fd =
     (if 0 \<le> fd then Inr (nat fd) else Inl (OtherError ''bad file descriptor''))"

definition request :: "string \<Rightarrow> string \<Rightarrow> Request" where
  "request m ps = \<lparr>Method = m, Params = ps\<rparr>"

definition start :: "(go_error + Request) list \<Rightarrow> nat world" where
  "start rs = \<lparr>incoming = rs, trace = [], backend = 0\<rparr>"

definition demo_session :: "nat world" where
  "demo_session =
     start [Inr (request ''pools'' ''{}''), Inr (request ''plugin_unregister'' ''{}''),
            Inr (request ''pools'' ''{}'')]"

lemmas demo_defs =
  demo_table_def demo_plugin_def nil_unregister_plugin_def request_def start_def demo_session_def
  readRequest_def sendError_def sendResponse_def close_def noSupport_def printf_def

section \<open>Properties\<close>

subsection \<open>One pass of the loop\<close>

declare Run.simps [simp del]

lemma Run_blocked: "incoming w = [] \<Longrightarrow> Run p w = (Blocked, w)"
  by (subst Run.simps) (simp add: readRequest_def)

lemma Run_read_error:
  "incoming w = Inl (LsmError c m) # rs \<Longrightarrow> c \<noteq> TransPortComunication \<Longrightarrow>
   Run p w = Run p (w\<lparr>incoming := rs,
       trace := trace w @ [ReadRequest (Inl (LsmError c m)), SendError (LsmError c m)]\<rparr>)"
  by (subst Run.simps) (simp add: readRequest_def sendError_def)

lemma Run_comm_error:
  "incoming w = Inl (LsmError TransPortComunication m) # rs \<Longrightarrow>
   Run p w = (Returned, w\<lparr>incoming := rs,
       trace := trace w @ [ReadRequest (Inl (LsmError TransPortComunication m)),
          Printf (''Communication error: exiting! %s'' @ newline)
            (LsmError TransPortComunication m)]\<rparr>)"
  by (subst Run.simps) (simp add: readRequest_def printf_def)

lemma Run_unexpected:
  "incoming w = Inl e # rs \<Longrightarrow> \<forall>c m. e \<noteq> LsmError c m \<Longrightarrow>
   Run p w = (Returned, w\<lparr>incoming := rs,
       trace := trace w @ [ReadRequest (Inl e),
          Printf (''Unexpected error, exiting! %s'' @ newline) e]\<rparr>)"
  by (subst Run.simps) (simp add: readRequest_def printf_def split: go_error.splits)

lemma Run_no_handler:
  "incoming w = Inr r # rs \<Longrightarrow>
   callTable p (Method r) = None \<or> callTable p (Method r) = Some None \<Longrightarrow>
   Run p w = Run p (w\<lparr>incoming := rs,
       trace := trace w @ [ReadRequest (Inr r),
          SendError (LsmError NoSupport (''method '' @ Method r @ '' not supported''))]\<rparr>)"
  by (subst Run.simps) (auto simp add: readRequest_def noSupport_def sendError_def)

lemma Run_handler:
  "incoming w = Inr r # rs \<Longrightarrow> callTable p (Method r) = Some (Some f) \<Longrightarrow>
   f (backend w) (Params r) = ((v, err), b) \<Longrightarrow> Method r \<noteq> ''plugin_unregister'' \<Longrightarrow>
   Run p w = Run p (w\<lparr>incoming := rs, backend := b,
       trace := trace w @ [ReadRequest (Inr r), Call (Method r) (Params r),
          (case err of Some e \<Rightarrow> SendError e | None \<Rightarrow> SendResponse v)]\<rparr>)"
  by (subst Run.simps)
     (simp add: readRequest_def sendError_def sendResponse_def split: option.splits)

lemma Run_unregister:
  "incoming w = Inr r # rs \<Longrightarrow> callTable p (Method r) = Some (Some f) \<Longrightarrow>
   f (backend w) (Params r) = ((v, err), b) \<Longrightarrow> Method r = ''plugin_unregister'' \<Longrightarrow>
   Run p w = (Returned, w\<lparr>incoming := rs, backend := b,
       trace := trace w @ [ReadRequest (Inr r), Call (Method r) (Params r),
          (case err of Some e \<Rightarrow> SendError e | None \<Rightarrow> SendResponse v), Close]\<rparr>)"
  by (subst Run.simps)
     (simp add: readRequest_def sendError_def sendResponse_def close_def split: option.splits)

subsection \<open>Events\<close>

lemma is_send_simps [simp]:
  "is_send (ReadRequest r) = False" "is_send (Call m q) = False" "is_send (SendError e) = True"
  "is_send (SendResponse v) = True" "is_send Close = False" "is_send (Printf f e) = False"
  by (simp_all add: is_send_def)

lemma is_read_simps [simp]:
  "is_read (ReadRequest r) = True" "is_read (Call m q) = False" "is_read (SendError e) = False"
  "is_read (SendResponse v) = False" "is_read Close = False" "is_read (Printf f e) = False"
  by (simp_all add: is_read_def)

lemma is_send_reply [simp]:
  "is_send (case err of None \<Rightarrow> SendResponse v | Some e \<Rightarrow> SendError e)"
  by (simp add: is_send_def split: option.splits)

lemma is_call_simps [simp]:
  "is_call (ReadRequest r) = False" "is_call (Call m q) = True" "is_call (SendError e) = False"
  "is_call (SendResponse v) = False" "is_call Close = False" "is_call (Printf f e) = False"
  by (simp_all add: is_call_def)


subsection \<open>The shape of a run\<close>

lemma Run_session_aux:
  "incoming w = rs \<Longrightarrow>
   \<exists>es. trace (snd (Run p w)) = trace w @ es \<and> session es (fst (Run p w))"
proof (induction rs arbitrary: w)
  case Nil
  then show ?case by (simp add: Run_blocked session.blocked)
next
  case (Cons r rs)
  show ?case
  proof (cases r)
    case (Inl e)
    show ?thesis
    proof (cases "\<exists>c m. e = LsmError c m")
      case False
      then show ?thesis
        using Run_unexpected [of w e rs p] Cons.prems Inl by (simp add: session.read_fatal)
    next
      case True
      then obtain c m where e: "e = LsmError c m" by blast
      show ?thesis
      proof (cases "c = TransPortComunication")
        case True
        then show ?thesis
          using Run_comm_error [of w m rs p] Cons.prems Inl e by (simp add: session.read_fatal)
      next
        case False
        let ?w = "w\<lparr>incoming := rs, trace := trace w @ [ReadRequest (Inl e), SendError e]\<rparr>"
        have run: "Run p w = Run p ?w"
          using Run_read_error [of w c m rs p] Cons.prems Inl e False by simp
        from Cons.IH [of ?w] obtain es where
          es: "trace (snd (Run p ?w)) = trace ?w @ es" "session es (fst (Run p ?w))" by auto
        then show ?thesis
          using run by (auto intro: session.read_error)
      qed
    qed
  next
    case (Inr req)
    show ?thesis
    proof (cases "\<exists>f. callTable p (Method req) = Some (Some f)")
      case False
      then have none: "callTable p (Method req) = None \<or> callTable p (Method req) = Some None"
        by (cases "callTable p (Method req)") auto
      let ?w = "w\<lparr>incoming := rs, trace := trace w @ [ReadRequest (Inr req),
          SendError (LsmError NoSupport (''method '' @ Method req @ '' not supported''))]\<rparr>"
      have run: "Run p w = Run p ?w"
        using Run_no_handler [of w req rs p] Cons.prems Inr none by simp
      from Cons.IH [of ?w] obtain es where
        es: "trace (snd (Run p ?w)) = trace ?w @ es" "session es (fst (Run p ?w))" by auto
      then show ?thesis
        using run by (auto intro: session.no_support)
    next
      case True
      then obtain f where f: "callTable p (Method req) = Some (Some f)" by blast
      obtain v err b where res: "f (backend w) (Params req) = ((v, err), b)"
        by (metis surj_pair)
      let ?s = "case err of None \<Rightarrow> SendResponse v | Some e \<Rightarrow> SendError e"
      show ?thesis
      proof (cases "Method req = ''plugin_unregister''")
        case True
        have "session [ReadRequest (Inr req), Call (Method req) (Params req), ?s, Close] Returned"
          by (rule session.unregister) (simp_all add: True)
        then show ?thesis
          using Run_unregister [of w req rs p f v err b] Cons.prems Inr f res True by simp
      next
        case False
        let ?w = "w\<lparr>incoming := rs, backend := b,
          trace := trace w @ [ReadRequest (Inr req), Call (Method req) (Params req), ?s]\<rparr>"
        have run: "Run p w = Run p ?w"
          using Run_handler [of w req rs p f v err b] Cons.prems Inr f res False by simp
        from Cons.IH [of ?w] obtain es where
          es: "trace (snd (Run p ?w)) = trace ?w @ es" "session es (fst (Run p ?w))" by auto
        have "session (ReadRequest (Inr req) # Call (Method req) (Params req) # ?s # es) (fst (Run p ?w))"
          by (rule session.handled) (simp_all add: es False)
        then show ?thesis
          using run es by auto
      qed
    qed
  qed
qed

lemma Run_trace: "trace (snd (Run p w)) = trace w @ emitted p w"
  using Run_session_aux [of w "incoming w" p] by (auto simp: emitted_def)

lemma Run_session: "session (emitted p w) (fst (Run p w))"
  using Run_session_aux [of w "incoming w" p] by (auto simp: emitted_def)

lemma session_head: "session t out \<Longrightarrow> t = [] \<or> is_read (hd t)"
  by (induction rule: session.induct) simp_all

lemma session_after_read:
  "session t out \<Longrightarrow> t = pre @ ReadRequest (Inr a) # post \<Longrightarrow>
   \<exists>s rest. is_send s \<and> (post = s # rest \<or> post = Call (Method a) (Params a) # s # rest) \<and>
     (rest = [Close] \<or> (\<exists>out'. session rest out'))"
proof (induction arbitrary: pre rule: session.induct)
  case blocked
  then show ?case by simp
next
  case (read_fatal e f)
  then show ?case by (auto simp: Cons_eq_append_conv)
next
  case (unregister s r)
  show ?case
  proof (cases pre)
    case Nil
    then have "post = Call (Method a) (Params a) # s # [Close]"
      using unregister.prems by auto
    then show ?thesis using unregister.hyps(1) by blast
  next
    case (Cons x pre1)
    then show ?thesis using unregister.prems unregister.hyps(1)
      by (auto simp: Cons_eq_append_conv)
  qed
next
  case (read_error t out e)
  then show ?case by (auto simp: Cons_eq_append_conv)
next
  case (no_support t out r e)
  show ?case
  proof (cases pre)
    case Nil
    then have "post = SendError e # t" using no_support.prems by auto
    then show ?thesis using no_support.hyps is_send_simps(3) by blast
  next
    case (Cons x pre1)
    then show ?thesis using no_support.prems no_support.IH by (auto simp: Cons_eq_append_conv)
  qed
next
  case (handled t out s r)
  show ?case
  proof (cases pre)
    case Nil
    then have "post = Call (Method a) (Params a) # s # t" using handled.prems by auto
    then show ?thesis using handled.hyps by blast
  next
    case (Cons x pre1)
    then show ?thesis using handled.prems handled.IH handled.hyps(2)
      by (auto simp: Cons_eq_append_conv)
  qed
qed

lemma session_no_reply_before_read:
  "session t out \<Longrightarrow> takeWhile (\<lambda>e. \<not> is_read e) t = []"
  using session_head [of t out] by (cases t) auto

lemma session_one_reply:
  assumes "session t out" and "t = pre @ ReadRequest (Inr a) # post"
  shows "length (filter is_send (takeWhile (\<lambda>e. \<not> is_read e) post)) = 1"
proof -
  from session_after_read [OF assms] obtain s rest where
    s: "is_send s" and
    post: "post = s # rest \<or> post = Call (Method a) (Params a) # s # rest" and
    rest: "rest = [Close] \<or> (\<exists>out'. session rest out')"
    by blast
  have "filter is_send (takeWhile (\<lambda>e. \<not> is_read e) rest) = []"
    using rest by (auto simp: session_no_reply_before_read)
  moreover have "\<not> is_read s"
    using s by (cases s) simp_all
  ultimately show ?thesis
    using s post by auto
qed

lemma session_reply_between:
  assumes "session t out" and "t = pre @ ReadRequest (Inr a) # mid @ e # post"
    and "is_read e \<or> (is_call e \<and> mid \<noteq> [])"
  shows "\<exists>s rest. is_send s \<and> (mid = s # rest \<or> mid = Call (Method a) (Params a) # s # rest)"
proof -
  from session_after_read [OF assms(1), of pre a "mid @ e # post"] assms(2) obtain s rest where
    s: "is_send s" and
    post: "mid @ e # post = s # rest \<or> mid @ e # post = Call (Method a) (Params a) # s # rest"
    by auto
  have ne: "e \<noteq> s"
    using s assms(3) by (cases s) auto
  have mid: "mid \<noteq> []"
    using post assms(3) ne by (cases mid) auto
  then obtain x mid1 where m: "mid = x # mid1" by (cases mid) auto
  show ?thesis
  proof (cases "x = s")
    case True
    then show ?thesis using s m by blast
  next
    case False
    then have x: "x = Call (Method a) (Params a)" and tl: "mid1 @ e # post = s # rest"
      using post m by auto
    then have "mid1 \<noteq> []" using ne by (cases mid1) auto
    then obtain mid2 where "mid1 = s # mid2" using tl by (cases mid1) auto
    then show ?thesis using s m x by blast
  qed
qed

lemma session_unregister:
  "session t out \<Longrightarrow> Call ''plugin_unregister'' ps \<in> set t \<Longrightarrow>
   out = Returned \<and> (\<exists>pre s. t = pre @ [Call ''plugin_unregister'' ps, s, Close] \<and> is_send s \<and>
      Close \<notin> set pre)"
proof (induction rule: session.induct)
  case blocked
  then show ?case by simp
next
  case (read_fatal e f)
  then show ?case by simp
next
  case (unregister s r)
  then have c: "Call (Method r) (Params r) = Call ''plugin_unregister'' ps"
    by (cases s) auto
  have "[ReadRequest (Inr r), Call (Method r) (Params r), s, Close] =
      [ReadRequest (Inr r)] @ [Call ''plugin_unregister'' ps, s, Close] \<and>
      Close \<notin> set [ReadRequest (Inr r)]"
    using c by simp
  then show ?case using unregister.hyps(1) by blast
next
  case (read_error t out e)
  then obtain pre s where t: "t = pre @ [Call ''plugin_unregister'' ps, s, Close]"
    and s: "is_send s" "Close \<notin> set pre" "out = Returned"
    by auto
  have "ReadRequest (Inl e) # SendError e # t =
        (ReadRequest (Inl e) # SendError e # pre) @ [Call ''plugin_unregister'' ps, s, Close] \<and>
        Close \<notin> set (ReadRequest (Inl e) # SendError e # pre)"
    using t s by simp
  then show ?case using s by blast
next
  case (no_support t out r e)
  then obtain pre s where t: "t = pre @ [Call ''plugin_unregister'' ps, s, Close]"
    and s: "is_send s" "Close \<notin> set pre" "out = Returned"
    by auto
  have "ReadRequest (Inr r) # SendError e # t =
        (ReadRequest (Inr r) # SendError e # pre) @ [Call ''plugin_unregister'' ps, s, Close] \<and>
        Close \<notin> set (ReadRequest (Inr r) # SendError e # pre)"
    using t s by simp
  then show ?case using s by blast
next
  case (handled t out s' r)
  have "s' \<noteq> Call ''plugin_unregister'' ps" "s' \<noteq> Close"
    using handled.hyps(2) by auto
  then have "Call ''plugin_unregister'' ps \<in> set t"
    using handled.prems handled.hyps(3) by auto
  with handled.IH obtain pre s where t: "t = pre @ [Call ''plugin_unregister'' ps, s, Close]"
    and s: "is_send s" "Close \<notin> set pre" "out = Returned"
    by auto
  have "ReadRequest (Inr r) # Call (Method r) (Params r) # s' # t =
        (ReadRequest (Inr r) # Call (Method r) (Params r) # s' # pre) @
          [Call ''plugin_unregister'' ps, s, Close] \<and>
        Close \<notin> set (ReadRequest (Inr r) # Call (Method r) (Params r) # s' # pre)"
    using t s \<open>s' \<noteq> Close\<close> by simp
  then show ?case using s by blast
qed

lemma count_Close_end:
  assumes "Close \<notin> set pre" and "is_send s"
  shows "count_list (pre @ [c, s, Close]) Close = (if c = Close then 2 else 1)"
  using assms by (cases s) auto

subsection \<open>Parsing the startup argument\<close>

lemma ParseUint_loop_nondigit:
  "\<not> list_all is_digit s \<Longrightarrow> \<exists>k. ParseUint_loop s n = Inl k"
  by (induction s arbitrary: n) auto

lemma ParseUint_not_numeric: "\<not> numeric s \<Longrightarrow> \<exists>k. ParseUint s = Inl k"
  using ParseUint_loop_nondigit [of s 0] by (auto simp: ParseUint_def numeric_def)

lemma ParseInt_error_form: "ParseInt s = Inl e \<Longrightarrow> \<exists>k. e = NumError ''ParseInt'' s k"
  by (auto simp: ParseInt_def Let_def split: list.splits sum.splits num_err.splits if_splits)

lemma ParseInt_not_signed_numeric:
  assumes "\<not> signed_numeric s"
  shows "\<exists>k. ParseInt s = Inl (NumError ''ParseInt'' s k)"
proof (cases s)
  case Nil
  then show ?thesis by (simp add: ParseInt_def)
next
  case (Cons c cs)
  let ?s1 = "if c = CHR ''+'' \<or> c = CHR ''-'' then cs else s"
  have "\<not> numeric ?s1"
    using assms Cons by (auto simp: signed_numeric_def split: if_splits)
  then obtain k where "ParseUint ?s1 = Inl k"
    using ParseUint_not_numeric by blast
  then show ?thesis
    using Cons by (cases k) (auto simp: ParseInt_def Let_def split: if_splits)
qed

lemma lsm_code_None: "lsm_code e = None \<longleftrightarrow> (\<forall>c m. e \<noteq> LsmError c m)"
  by (cases e) (simp_all add: lsm_code_def)

subsection \<open>Continuing with the next pass\<close>

lemma emitted_step:
  assumes "Run p w = Run p w'" and "trace w' = trace w @ es"
  shows "emitted p w = es @ emitted p w'"
proof -
  have "trace (snd (Run p w)) = trace w @ es @ emitted p w'"
    using Run_trace [of p w'] assms by simp
  then show ?thesis
    by (simp add: emitted_def)
qed

subsection \<open>Runs of the small plugin\<close>

lemma demo_session_run:
  "Run demo_plugin demo_session =
     (Returned,
      \<lparr>incoming = [Inr (request ''pools'' ''{}'')],
       trace = [ReadRequest (Inr (request ''pools'' ''{}'')), Call ''pools'' ''{}'',
                SendResponse ''[]'',
                ReadRequest (Inr (request ''plugin_unregister'' ''{}'')),
                Call ''plugin_unregister'' ''{}'',
                SendError (LsmError (DomainKind 1) ''busy''), Close],
       backend = Suc 0\<rparr>)"
  by (simp add: Run.simps demo_defs)

lemma demo_session_emitted:
  "emitted demo_plugin demo_session =
     [ReadRequest (Inr (request ''pools'' ''{}'')), Call ''pools'' ''{}'', SendResponse ''[]'',
      ReadRequest (Inr (request ''plugin_unregister'' ''{}'')),
      Call ''plugin_unregister'' ''{}'', SendError (LsmError (DomainKind 1) ''busy''), Close]"
  unfolding emitted_def demo_session_run by (simp add: demo_session_def start_def)

section \<open>The session loop and its start\<close>

text \<open>
  C1. In every run of \<open>Run\<close> in which a request with method \<open>plugin_unregister\<close> is read and
  its handler is invoked, \<open>Run\<close> returns, and the events of the run end with that
  invocation, one reply (\<open>sendResponse\<close> or \<open>sendError\<close>, whichever the handler's result
  asks for) and \<open>close\<close>: \<open>close\<close> is called exactly once and nothing is read after it.
\<close>

theorem unregister_closes_once:
  assumes "Call ''plugin_unregister'' ps \<in> set (emitted p w)"
  shows "fst (Run p w) = Returned \<and> count_list (emitted p w) Close = 1 \<and>
         (\<exists>pre s. emitted p w = pre @ [Call ''plugin_unregister'' ps, s, Close] \<and> is_send s)"
proof -
  from session_unregister [OF Run_session assms] obtain pre s where
    out: "fst (Run p w) = Returned" and
    em: "emitted p w = pre @ [Call ''plugin_unregister'' ps, s, Close]" and
    s: "is_send s" and pre: "Close \<notin> set pre"
    by blast
  have "count_list (emitted p w) Close = 1"
    using count_Close_end [OF pre s, of "Call ''plugin_unregister'' ps"] em by simp
  then show ?thesis
    using out em s by blast
qed

theorem unregister_closes_once_witness:
  "Call ''plugin_unregister'' ''{}'' \<in> set (emitted demo_plugin demo_session) \<and>
   fst (Run demo_plugin demo_session) = Returned \<and>
   count_list (emitted demo_plugin demo_session) Close = 1 \<and>
   incoming (snd (Run demo_plugin demo_session)) = [Inr (request ''pools'' ''{}'')]"
proof -
  have c: "Call ''plugin_unregister'' ''{}'' \<in> set (emitted demo_plugin demo_session)"
    by (simp add: demo_session_emitted)
  show ?thesis
    using unregister_closes_once [OF c] c by (simp add: demo_session_run)
qed

text \<open>
  C2, as the code has it. When the argument list does not have length two, \<open>PluginInit\<close>
  returns an \<open>LsmError\<close> of kind \<open>LibBug\<close>. When it has length two and the argument is not a
  string of decimal digits with an optional sign, \<open>PluginInit\<close> returns the \<open>*NumError\<close> of
  \<open>strconv.ParseInt\<close> as it is, which is not an error of kind \<open>LibBug\<close>. In both cases no
  Plugin is produced.
\<close>

theorem PluginInit_argument_errors:
  "(length args \<noteq> 2 \<longrightarrow>
      PluginInit bt fc cbs args d v =
        Inl (LsmError LibBug
               (''Plugin called with invalid args: '' @ sprint_strings args @ newline))) \<and>
   (length args = 2 \<and> \<not> signed_numeric (args ! 1) \<longrightarrow>
      (\<exists>k. PluginInit bt fc cbs args d v = Inl (NumError ''ParseInt'' (args ! 1) k)))"
proof (intro conjI impI)
  assume "length args \<noteq> 2"
  then show "PluginInit bt fc cbs args d v =
      Inl (LsmError LibBug
             (''Plugin called with invalid args: '' @ sprint_strings args @ newline))"
    by (simp add: PluginInit_def)
next
  assume a: "length args = 2 \<and> \<not> signed_numeric (args ! 1)"
  then obtain k where "ParseInt (args ! 1) = Inl (NumError ''ParseInt'' (args ! 1) k)"
    using ParseInt_not_signed_numeric by blast
  then have "PluginInit bt fc cbs args d v = Inl (NumError ''ParseInt'' (args ! 1) k)"
    using a by (simp add: PluginInit_def)
  then show "\<exists>k. PluginInit bt fc cbs args d v = Inl (NumError ''ParseInt'' (args ! 1) k)" ..
qed

theorem PluginInit_argument_errors_witness:
  "length [''plugin''] \<noteq> 2 \<and>
   PluginInit demo_buildTable demo_fileConn () [''plugin''] ''demo'' ''1.0'' =
     Inl (LsmError LibBug (''Plugin called with invalid args: [plugin]'' @ newline)) \<and>
   length [''plugin'', ''12x''] = 2 \<and> \<not> signed_numeric ([''plugin'', ''12x''] ! 1) \<and>
   (\<exists>k. PluginInit demo_buildTable demo_fileConn () [''plugin'', ''12x''] ''demo'' ''1.0'' =
      Inl (NumError ''ParseInt'' ''12x'' k))"
proof -
  have n: "\<not> signed_numeric ([''plugin'', ''12x''] ! 1)"
    by (simp add: signed_numeric_def numeric_def is_digit_def)
  show ?thesis
    using n
      PluginInit_argument_errors [of "[''plugin'']" demo_buildTable demo_fileConn "()" "''demo''" "''1.0''"]
      PluginInit_argument_errors [of "[''plugin'', ''12x'']" demo_buildTable demo_fileConn "()" "''demo''" "''1.0''"]
    by (simp add: sprint_strings_def)
qed

text \<open>
  C2 as stated fails: with the single argument \<open>abc\<close> the error returned is the syntax
  error of \<open>strconv.ParseInt\<close>, not an \<open>LsmError\<close> of kind \<open>LibBug\<close>.
\<close>

theorem PluginInit_non_numeric_counterexample:
  "PluginInit demo_buildTable demo_fileConn () [''plugin'', ''abc''] ''demo'' ''1.0'' =
     Inl (NumError ''ParseInt'' ''abc'' ErrSyntax) \<and>
   lsm_code (NumError ''ParseInt'' ''abc'' ErrSyntax) \<noteq> Some LibBug"
  by (simp add: PluginInit_def ParseInt_def ParseUint_def is_digit_def lsm_code_def)

text \<open>
  C3, as the code has it. When the handler of a request returns an error, \<open>Run\<close> sends that
  very error with \<open>sendError\<close>; then, for every method but \<open>plugin_unregister\<close>, it goes on
  with the next pass of the loop, and for \<open>plugin_unregister\<close> it closes the transport and
  returns.
\<close>

theorem handler_error_forwarded:
  assumes "incoming w = Inr r # rs"
    and "callTable p (Method r) = Some (Some f)"
    and "f (backend w) (Params r) = ((v, Some e), b)"
  shows "Run p w =
     (if Method r = ''plugin_unregister''
      then (Returned,
            w\<lparr>incoming := rs, backend := b,
              trace := trace w @ [ReadRequest (Inr r), Call (Method r) (Params r),
                                  SendError e, Close]\<rparr>)
      else Run p
            (w\<lparr>incoming := rs, backend := b,
               trace := trace w @ [ReadRequest (Inr r), Call (Method r) (Params r),
                                   SendError e]\<rparr>))"
  using Run_handler [OF assms] Run_unregister [OF assms] by simp

theorem handler_error_forwarded_witness:
  "Run demo_plugin
     (start [Inr (request ''plugin_register'' ''{}''), Inr (request ''pools'' ''{}'')]) =
   Run demo_plugin
     \<lparr>incoming = [Inr (request ''pools'' ''{}'')],
      trace = [ReadRequest (Inr (request ''plugin_register'' ''{}'')),
               Call ''plugin_register'' ''{}'',
               SendError (LsmError (DomainKind 101) ''invalid URI'')],
      backend = 0\<rparr>"
  using handler_error_forwarded
    [of "start [Inr (request ''plugin_register'' ''{}''), Inr (request ''pools'' ''{}'')]"
        "request ''plugin_register'' ''{}''" "[Inr (request ''pools'' ''{}'')]" demo_plugin
        "\<lambda>b ps. ((''null'', Some (LsmError (DomainKind 101) ''invalid URI'')), b)"
        "''null''" "LsmError (DomainKind 101) ''invalid URI''" 0]
  by (simp add: demo_table_def demo_plugin_def request_def start_def)

text \<open>
  C3 as stated fails for \<open>plugin_unregister\<close>: its handler returns an error, the error is
  sent, and the loop does not continue. The transport is closed, \<open>Run\<close> returns, and the
  request that follows is never read.
\<close>

theorem unregister_error_counterexample:
  "Run demo_plugin
     (start [Inr (request ''plugin_unregister'' ''{}''), Inr (request ''pools'' ''{}'')]) =
   (Returned,
    \<lparr>incoming = [Inr (request ''pools'' ''{}'')],
     trace = [ReadRequest (Inr (request ''plugin_unregister'' ''{}'')),
              Call ''plugin_unregister'' ''{}'',
              SendError (LsmError (DomainKind 1) ''busy''), Close],
     backend = 0\<rparr>)"
  by (simp add: Run.simps demo_defs)

text \<open>
  C4. When \<open>readRequest\<close> fails with an \<open>LsmError\<close> of kind \<open>TransPortComunication\<close>, \<open>Run\<close>
  prints a message and returns at once: after the failed read it calls neither
  \<open>sendError\<close> nor \<open>sendResponse\<close>, and it reads nothing more.
\<close>

theorem transport_failure_exits:
  assumes "incoming w = Inl (LsmError TransPortComunication m) # rs"
  shows "Run p w =
     (Returned,
      w\<lparr>incoming := rs,
        trace := trace w @ [ReadRequest (Inl (LsmError TransPortComunication m)),
           Printf (''Communication error: exiting! %s'' @ newline)
             (LsmError TransPortComunication m)]\<rparr>) \<and>
     filter is_send (emitted p w) = []"
  using Run_comm_error [OF assms, of p] by (simp add: emitted_def)

theorem transport_failure_exits_witness:
  "Run demo_plugin
     (start [Inl (LsmError TransPortComunication ''EOF''), Inr (request ''pools'' ''{}'')]) =
   (Returned,
    \<lparr>incoming = [Inr (request ''pools'' ''{}'')],
     trace = [ReadRequest (Inl (LsmError TransPortComunication ''EOF'')),
              Printf (''Communication error: exiting! %s'' @ newline)
                (LsmError TransPortComunication ''EOF'')],
     backend = 0\<rparr>)"
  using transport_failure_exits
    [of "start [Inl (LsmError TransPortComunication ''EOF''), Inr (request ''pools'' ''{}'')]"
        "''EOF''" "[Inr (request ''pools'' ''{}'')]" demo_plugin]
  by (simp add: start_def)

text \<open>
  C5. When the method of a request that was read has no entry in the call table, \<open>Run\<close>
  sends an \<open>LsmError\<close> of kind \<open>NoSupport\<close> whose message names the method, does not close
  the transport, and goes on with the next pass of the loop: the events of this pass are
  the read and the \<open>sendError\<close>, followed by those of the loop continued on what is still
  to be read.
\<close>

theorem unknown_method_no_support:
  assumes "incoming w = Inr r # rs" and "callTable p (Method r) = None"
  shows "Run p w =
     Run p (w\<lparr>incoming := rs,
              trace := trace w @ [ReadRequest (Inr r),
                SendError (LsmError NoSupport (''method '' @ Method r @ '' not supported''))]\<rparr>) \<and>
     emitted p w =
       [ReadRequest (Inr r),
        SendError (LsmError NoSupport (''method '' @ Method r @ '' not supported''))] @
       emitted p (w\<lparr>incoming := rs,
              trace := trace w @ [ReadRequest (Inr r),
                SendError (LsmError NoSupport (''method '' @ Method r @ '' not supported''))]\<rparr>)"
proof -
  let ?w = "w\<lparr>incoming := rs,
              trace := trace w @ [ReadRequest (Inr r),
                SendError (LsmError NoSupport (''method '' @ Method r @ '' not supported''))]\<rparr>"
  have run: "Run p w = Run p ?w"
    using Run_no_handler [OF assms(1), of p] assms(2) by simp
  then show ?thesis
    using emitted_step [OF run] by simp
qed

theorem unknown_method_no_support_witness:
  "callTable demo_plugin ''volume_create'' = None \<and>
   Run demo_plugin
     (start [Inr (request ''volume_create'' ''{}''), Inr (request ''pools'' ''{}'')]) =
   Run demo_plugin
     \<lparr>incoming = [Inr (request ''pools'' ''{}'')],
      trace = [ReadRequest (Inr (request ''volume_create'' ''{}'')),
               SendError (LsmError NoSupport ''method volume_create not supported'')],
      backend = 0\<rparr>"
  using unknown_method_no_support
    [of "start [Inr (request ''volume_create'' ''{}''), Inr (request ''pools'' ''{}'')]"
        "request ''volume_create'' ''{}''" "[Inr (request ''pools'' ''{}'')]" demo_plugin]
  by (simp add: demo_table_def demo_plugin_def request_def start_def)

text \<open>
  C6. Requests are handled one at a time, in the order they are read. In the events of
  any run, take the read of a request \<open>a\<close> and any later event \<open>e\<close> that is a read or the
  invocation of a handler other than the one that directly answers \<open>a\<close>: the reply to
  \<open>a\<close> lies between them, directly after the read of \<open>a\<close> or after the invocation of its
  own handler.
\<close>

theorem one_request_at_a_time:
  assumes "emitted p w = pre @ ReadRequest (Inr a) # mid @ e # post"
    and "is_read e \<or> (is_call e \<and> mid \<noteq> [])"
  shows "\<exists>s rest. is_send s \<and>
           (mid = s # rest \<or> mid = Call (Method a) (Params a) # s # rest)"
  using session_reply_between [OF Run_session assms] .

theorem one_request_at_a_time_witness:
  "emitted demo_plugin demo_session =
     [] @ ReadRequest (Inr (request ''pools'' ''{}'')) #
       [Call ''pools'' ''{}'', SendResponse ''[]''] @
       ReadRequest (Inr (request ''plugin_unregister'' ''{}'')) #
       [Call ''plugin_unregister'' ''{}'', SendError (LsmError (DomainKind 1) ''busy''), Close] \<and>
   is_read (ReadRequest (Inr (request ''plugin_unregister'' ''{}''))) \<and>
   (\<exists>s rest. is_send s \<and>
      ([Call ''pools'' ''{}'', SendResponse ''[]''] = s # rest \<or>
       [Call ''pools'' ''{}'', SendResponse ''[]''] =
         Call (Method (request ''pools'' ''{}'')) (Params (request ''pools'' ''{}'')) # s # rest))"
proof -
  have h: "emitted demo_plugin demo_session =
     [] @ ReadRequest (Inr (request ''pools'' ''{}'')) #
       [Call ''pools'' ''{}'', SendResponse ''[]''] @
       ReadRequest (Inr (request ''plugin_unregister'' ''{}'')) #
       [Call ''plugin_unregister'' ''{}'', SendError (LsmError (DomainKind 1) ''busy''), Close]"
    by (simp add: demo_session_emitted)
  have r: "is_read (ReadRequest (Inr (request ''plugin_unregister'' ''{}''))) \<or>
      (is_call (ReadRequest (Inr (request ''plugin_unregister'' ''{}''))) \<and>
       [Call ''pools'' ''{}'', SendResponse ''[]''] \<noteq> [])"
    by simp
  from one_request_at_a_time [OF h r] h show ?thesis
    by (intro conjI) simp_all
qed

text \<open>
  C7. When \<open>readRequest\<close> fails with an \<open>LsmError\<close> of any kind but
  \<open>TransPortComunication\<close>, \<open>Run\<close> sends that error with \<open>sendError\<close> and goes on with the
  next pass of the loop: it neither closes the transport nor returns.
\<close>

theorem read_error_replied:
  assumes "incoming w = Inl (LsmError c m) # rs" and "c \<noteq> TransPortComunication"
  shows "Run p w =
     Run p (w\<lparr>incoming := rs,
              trace := trace w @ [ReadRequest (Inl (LsmError c m)),
                                  SendError (LsmError c m)]\<rparr>) \<and>
     emitted p w =
       [ReadRequest (Inl (LsmError c m)), SendError (LsmError c m)] @
       emitted p (w\<lparr>incoming := rs,
              trace := trace w @ [ReadRequest (Inl (LsmError c m)),
                                  SendError (LsmError c m)]\<rparr>)"
proof -
  let ?w = "w\<lparr>incoming := rs,
              trace := trace w @ [ReadRequest (Inl (LsmError c m)),
                                  SendError (LsmError c m)]\<rparr>"
  have run: "Run p w = Run p ?w"
    using Run_read_error [OF assms, of p] .
  then show ?thesis
    using emitted_step [OF run] by simp
qed

theorem read_error_replied_witness:
  "LibBug \<noteq> TransPortComunication \<and>
   Run demo_plugin
     (start [Inl (LsmError LibBug ''bad request''), Inr (request ''pools'' ''{}'')]) =
   Run demo_plugin
     \<lparr>incoming = [Inr (request ''pools'' ''{}'')],
      trace = [ReadRequest (Inl (LsmError LibBug ''bad request'')),
               SendError (LsmError LibBug ''bad request'')],
      backend = 0\<rparr>"
  using read_error_replied
    [of "start [Inl (LsmError LibBug ''bad request''), Inr (request ''pools'' ''{}'')]"
        LibBug "''bad request''" "[Inr (request ''pools'' ''{}'')]" demo_plugin]
  by (simp add: start_def)

text \<open>
  C8. When \<open>readRequest\<close> fails with an error that is not an \<open>LsmError\<close>, \<open>Run\<close> prints the
  error and returns: it sends no reply and reads nothing more.
\<close>

theorem unstructured_failure_exits:
  assumes "incoming w = Inl e # rs" and "lsm_code e = None"
  shows "Run p w =
     (Returned,
      w\<lparr>incoming := rs,
        trace := trace w @ [ReadRequest (Inl e),
           Printf (''Unexpected error, exiting! %s'' @ newline) e]\<rparr>) \<and>
     filter is_send (emitted p w) = []"
proof -
  have "\<forall>c m. e \<noteq> LsmError c m"
    using assms(2) by (simp add: lsm_code_None)
  from Run_unexpected [OF assms(1) this, of p] show ?thesis
    by (simp add: emitted_def)
qed

theorem unstructured_failure_exits_witness:
  "lsm_code (OtherError ''unexpected EOF'') = None \<and>
   Run demo_plugin
     (start [Inl (OtherError ''unexpected EOF''), Inr (request ''pools'' ''{}'')]) =
   (Returned,
    \<lparr>incoming = [Inr (request ''pools'' ''{}'')],
     trace = [ReadRequest (Inl (OtherError ''unexpected EOF'')),
              Printf (''Unexpected error, exiting! %s'' @ newline)
                (OtherError ''unexpected EOF'')],
     backend = 0\<rparr>)"
  using unstructured_failure_exits
    [of "start [Inl (OtherError ''unexpected EOF''), Inr (request ''pools'' ''{}'')]"
        "OtherError ''unexpected EOF''" "[Inr (request ''pools'' ''{}'')]" demo_plugin]
  by (simp add: start_def lsm_code_def)

text \<open>
  C9. An entry of the call table that holds a nil handler is treated as a missing entry:
  no handler is invoked, \<open>Run\<close> sends the \<open>NoSupport\<close> error naming the method and goes on
  with the next pass of the loop. This holds for every method, \<open>plugin_unregister\<close>
  included: with a nil handler in its slot the transport is not closed and \<open>Run\<close> does not
  return.
\<close>

theorem nil_handler_no_support:
  assumes "incoming w = Inr r # rs" and "callTable p (Method r) = Some None"
  shows "Run p w =
     Run p (w\<lparr>incoming := rs,
              trace := trace w @ [ReadRequest (Inr r),
                SendError (LsmError NoSupport (''method '' @ Method r @ '' not supported''))]\<rparr>) \<and>
     emitted p w =
       [ReadRequest (Inr r),
        SendError (LsmError NoSupport (''method '' @ Method r @ '' not supported''))] @
       emitted p (w\<lparr>incoming := rs,
              trace := trace w @ [ReadRequest (Inr r),
                SendError (LsmError NoSupport (''method '' @ Method r @ '' not supported''))]\<rparr>)"
proof -
  let ?w = "w\<lparr>incoming := rs,
              trace := trace w @ [ReadRequest (Inr r),
                SendError (LsmError NoSupport (''method '' @ Method r @ '' not supported''))]\<rparr>"
  have run: "Run p w = Run p ?w"
    using Run_no_handler [OF assms(1), of p] assms(2) by simp
  then show ?thesis
    using emitted_step [OF run] by simp
qed

theorem nil_handler_no_support_witness:
  "callTable nil_unregister_plugin ''plugin_unregister'' = Some None \<and>
   Run nil_unregister_plugin
     (start [Inr (request ''plugin_unregister'' ''{}''), Inr (request ''pools'' ''{}'')]) =
   (Blocked,
    \<lparr>incoming = [],
     trace = [ReadRequest (Inr (request ''plugin_unregister'' ''{}'')),
              SendError (LsmError NoSupport ''method plugin_unregister not supported''),
              ReadRequest (Inr (request ''pools'' ''{}'')), Call ''pools'' ''{}'',
              SendResponse ''[]''],
     backend = Suc 0\<rparr>)"
proof -
  have rest: "Run nil_unregister_plugin
     \<lparr>incoming = [Inr (request ''pools'' ''{}'')],
      trace = [ReadRequest (Inr (request ''plugin_unregister'' ''{}'')),
               SendError (LsmError NoSupport ''method plugin_unregister not supported'')],
      backend = 0\<rparr> =
     (Blocked,
      \<lparr>incoming = [],
       trace = [ReadRequest (Inr (request ''plugin_unregister'' ''{}'')),
                SendError (LsmError NoSupport ''method plugin_unregister not supported''),
                ReadRequest (Inr (request ''pools'' ''{}'')), Call ''pools'' ''{}'',
                SendResponse ''[]''],
       backend = Suc 0\<rparr>)"
    by (simp add: Run.simps demo_defs)
  show ?thesis
    using nil_handler_no_support
      [of "start [Inr (request ''plugin_unregister'' ''{}''), Inr (request ''pools'' ''{}'')]"
          "request ''plugin_unregister'' ''{}''" "[Inr (request ''pools'' ''{}'')]"
          nil_unregister_plugin]
      rest
    by (simp add: demo_table_def demo_plugin_def nil_unregister_plugin_def request_def start_def)
qed

text \<open>
  C10. In the events of any run, the read of a request is followed, before the next read
  (or the end of the run), by exactly one call of a send method: one \<open>sendResponse\<close> or one
  \<open>sendError\<close>.
\<close>

theorem exactly_one_reply:
  assumes "emitted p w = pre @ ReadRequest (Inr r) # post"
  shows "length (filter is_send (takeWhile (\<lambda>e. \<not> is_read e) post)) = 1"
  using session_one_reply [OF Run_session assms] .

theorem exactly_one_reply_witness:
  "emitted demo_plugin demo_session =
     [] @ ReadRequest (Inr (request ''pools'' ''{}'')) #
       [Call ''pools'' ''{}'', SendResponse ''[]'',
        ReadRequest (Inr (request ''plugin_unregister'' ''{}'')),
        Call ''plugin_unregister'' ''{}'', SendError (LsmError (DomainKind 1) ''busy''), Close] \<and>
   length (filter is_send (takeWhile (\<lambda>e. \<not> is_read e)
       [Call ''pools'' ''{}'', SendResponse ''[]'',
        ReadRequest (Inr (request ''plugin_unregister'' ''{}'')),
        Call ''plugin_unregister'' ''{}'', SendError (LsmError (DomainKind 1) ''busy''),
        Close])) = 1"
proof -
  have h: "emitted demo_plugin demo_session =
     [] @ ReadRequest (Inr (request ''pools'' ''{}'')) #
       [Call ''pools'' ''{}'', SendResponse ''[]'',
        ReadRequest (Inr (request ''plugin_unregister'' ''{}'')),
        Call ''plugin_unregister'' ''{}'', SendError (LsmError (DomainKind 1) ''busy''), Close]"
    by (simp add: demo_session_emitted)
  from exactly_one_reply [OF h] h show ?thesis
    by (intro conjI)
qed

end
